theory Spec2Isabelle
  imports Complex_Main "HOL-Library.Char_ord" "HOL-Library.List_Lexorder" "HOL-Library.AList"
begin

section \<open>Python values, exceptions and builtins\<close>

text \<open>
  A Python float is a finite number, an infinity or NaN. Finite values are modelled as
  real numbers (rounding is not modelled). An exception is its class together with the
  text that \<^verbatim>\<open>str(e)\<close> gives.
\<close>

datatype pyfloat = Finite real | PosInf | NegInf | NaN

datatype exn_class = ValueError | KeyError | OtherException string

datatype exn = Exn exn_class string

fun exn_str :: "exn \<Rightarrow> string" where
  "exn_str (Exn c m) = m"

datatype pyval = PStr string | PInt int | PFloat pyfloat | PBool bool

definition digit_char :: "nat \<Rightarrow> char" where
  "digit_char d = ''0123456789'' ! d"

text \<open>\<^verbatim>\<open>str(n)\<close> for an integer: its decimal digits, with a minus sign when negative.\<close>

fun str_nat :: "nat \<Rightarrow> string" where
  "str_nat n = (if n < 10 then [digit_char n] else str_nat (n div 10) @ [digit_char (n mod 10)])"

declare str_nat.simps [simp del]

definition str_int :: "int \<Rightarrow> string" where
  "str_int i = (if i < 0 then CHR ''-'' # str_nat (nat (- i)) else str_nat (nat i))"

definition float_of_int :: "int \<Rightarrow> pyfloat" where
  "float_of_int i = Finite (of_int i)"

definition squote :: string where
  "squote = [CHR 0x27]"

section \<open>app.py: the serving application\<close>

text \<open>
  What the handler calls but the repository does not define: the builtins
  \<^verbatim>\<open>float(s)\<close> on a string and \<^verbatim>\<open>str(x)\<close> on a float, the loaded scaler's
  \<^verbatim>\<open>transform\<close> on the one-row array, and \<^verbatim>\<open>int(model.predict(scaled)[0])\<close> of the
  loaded model. Each one that can raise returns the exception as a value.
\<close>

record serving_env =
  py_float :: "string \<Rightarrow> exn + pyfloat"
  str_float :: "pyfloat \<Rightarrow> string"
  scaler_transform :: "pyfloat list \<Rightarrow> exn + pyfloat list"
  model_predict :: "pyfloat list \<Rightarrow> exn + int"

text \<open>\<^verbatim>\<open>str(v)\<close> for the values a defaults dictionary holds.\<close>

fun py_str :: "serving_env \<Rightarrow> pyval \<Rightarrow> string" where
  "py_str env (PStr s) = s"
| "py_str env (PInt i) = str_int i"
| "py_str env (PFloat f) = str_float env f"
| "py_str env (PBool b) = (if b then ''True'' else ''False'')"

definition FEATURES :: "string list" where
  "FEATURES =
    [''Operation_Mode'', ''Temperature_C'', ''Vibration_Hz'', ''Power_Consumption_kW'',
     ''Network_Latency_ms'', ''Packet_Loss_%'', ''Quality_Control_Defect_Rate_%'',
     ''Production_Speed_units_per_hr'', ''Predictive_Maintenance_Score'', ''Error_Rate_%'',
     ''Year'', ''Month'', ''Day'', ''Hour'']"

definition LABELS :: "(int \<times> string) list" where
  "LABELS = [(0, ''High''), (1, ''Low''), (2, ''Medium'')]"

definition OPERATION_MODE_MAP :: "(string \<times> int) list" where
  "OPERATION_MODE_MAP = [(''Idle'', 0), (''Active'', 1), (''Maintenance'', 2)]"

definition OPERATION_MODE_CHOICES :: "string list" where
  "OPERATION_MODE_CHOICES = map fst OPERATION_MODE_MAP"

record datetime =
  year :: int
  month :: int
  day :: int
  hour :: int

text \<open>
  \<^verbatim>\<open>DEFAULTS_FALLBACK\<close> as the module builds it at import time; \<open>now\<close> is the value of
  \<^verbatim>\<open>datetime.now()\<close> then. A dictionary is an association list in insertion order.
\<close>

type_synonym pydict = "(string \<times> pyval) list"

definition DEFAULTS_FALLBACK :: "datetime \<Rightarrow> pydict" where
  "DEFAULTS_FALLBACK now =
    [(''Operation_Mode'', PStr ''Active''),
     (''Temperature_C'', PFloat (Finite 65)),
     (''Vibration_Hz'', PFloat (Finite 50)),
     (''Power_Consumption_kW'', PFloat (Finite 35)),
     (''Network_Latency_ms'', PFloat (Finite 15)),
     (''Packet_Loss_%'', PFloat (Finite (5 / 10))),
     (''Quality_Control_Defect_Rate_%'', PFloat (Finite 1)),
     (''Production_Speed_units_per_hr'', PFloat (Finite 120)),
     (''Predictive_Maintenance_Score'', PFloat (Finite 55)),
     (''Error_Rate_%'', PFloat (Finite (8 / 10))),
     (''Year'', PInt (year now)),
     (''Month'', PInt (month now)),
     (''Day'', PInt (day now)),
     (''Hour'', PInt (min (hour now) 23))]"

text \<open>
  The optional means file: absent, unusable (reading or parsing it raises, or the
  document is not an object), or an object with its items in order.
\<close>

datatype json = JStr string | JInt int | JFloat pyfloat | JBool bool | JNull | JNested

datatype means_file = NoFile | Unusable | MeansObject "(string \<times> json) list"

text \<open>\<^verbatim>\<open>isinstance(v, (int, float))\<close>: a JSON boolean is a Python \<^verbatim>\<open>bool\<close>, a subclass of \<^verbatim>\<open>int\<close>.\<close>

fun numeric_json :: "json \<Rightarrow> pyval option" where
  "numeric_json (JInt i) = Some (PInt i)"
| "numeric_json (JFloat f) = Some (PFloat f)"
| "numeric_json (JBool b) = Some (PBool b)"
| "numeric_json _ = None"

fun merge_means :: "pydict \<Rightarrow> (string \<times> json) list \<Rightarrow> pydict" where
  "merge_means merged [] = merged"
| "merge_means merged ((k, v) # items) =
     (case (map_of merged k, numeric_json v) of
        (Some old, Some w) \<Rightarrow> merge_means (AList.update k w merged) items
      | _ \<Rightarrow> merge_means merged items)"

text \<open>
  The module-level state a request can change is the dictionary \<^verbatim>\<open>DEFAULTS_FALLBACK\<close>.
  \<^verbatim>\<open>load_feature_means\<close> returns either that very object or a merged copy; the handler
  then writes into what it got. \<open>form_values\<close> is \<open>None\<close> while it is the same object as
  the global dictionary, and the separate copy otherwise.
\<close>

record handler_state =
  defaults :: pydict
  form_values :: "pydict option"

definition load_feature_means :: "means_file \<Rightarrow> pydict \<Rightarrow> handler_state" where
  "load_feature_means mf d =
     (case mf of
        MeansObject items \<Rightarrow> \<lparr>defaults = d, form_values = Some (merge_means d items)\<rparr>
      | _ \<Rightarrow> \<lparr>defaults = d, form_values = None\<rparr>)"

definition set_form_value :: "string \<Rightarrow> pyval \<Rightarrow> handler_state \<Rightarrow> handler_state" where
  "set_form_value k v hs =
     (case form_values hs of
        None \<Rightarrow> hs\<lparr>defaults := AList.update k v (defaults hs)\<rparr>
      | Some fv \<Rightarrow> hs\<lparr>form_values := Some (AList.update k v fv)\<rparr>)"

definition current_form_values :: "handler_state \<Rightarrow> pydict" where
  "current_form_values hs = (case form_values hs of None \<Rightarrow> defaults hs | Some fv \<Rightarrow> fv)"

type_synonym form = "string \<rightharpoonup> string"

text \<open>\<^verbatim>\<open>str(DEFAULTS_FALLBACK.get(feat, 0.0))\<close>, read from the dictionary as it is now.\<close>

definition default_text :: "serving_env \<Rightarrow> pydict \<Rightarrow> string \<Rightarrow> string" where
  "default_text env d feat = py_str env (case map_of d feat of None \<Rightarrow> PFloat (Finite 0) | Some v \<Rightarrow> v)"

text \<open>One pass of the loop body over \<^verbatim>\<open>FEATURES\<close>: the value appended, or the exception.\<close>

definition feature_value :: "serving_env \<Rightarrow> form \<Rightarrow> string \<Rightarrow> handler_state \<Rightarrow> (exn + pyfloat) \<times> handler_state" where
  "feature_value env frm feat hs =
     (if feat = ''Operation_Mode'' then
        (let mode_label = (case frm ''Operation_Mode'' of
                             None \<Rightarrow> OPERATION_MODE_CHOICES ! 0 | Some l \<Rightarrow> l)
         in case map_of OPERATION_MODE_MAP mode_label of
              None \<Rightarrow>
                (Inl (Exn ValueError (''Unknown Operation_Mode '' @ squote @ mode_label @ squote @ ''.'')), hs)
            | Some mode_code \<Rightarrow>
                (Inr (float_of_int mode_code), set_form_value ''Operation_Mode'' (PStr mode_label) hs))
      else
        (let raw_val = (case frm feat of
                          None \<Rightarrow> default_text env (defaults hs) feat
                        | Some s \<Rightarrow> s)
         in case py_float env raw_val of
              Inl e \<Rightarrow> (Inl e, hs)
            | Inr val \<Rightarrow> (Inr val, set_form_value feat (PFloat val) hs)))"

fun build_values ::
  "serving_env \<Rightarrow> form \<Rightarrow> string list \<Rightarrow> pyfloat list \<Rightarrow> handler_state \<Rightarrow> (exn + pyfloat list) \<times> handler_state" where
  "build_values env frm [] vals hs = (Inr vals, hs)"
| "build_values env frm (feat # feats) vals hs =
     (case feature_value env frm feat hs of
        (Inl e, hs') \<Rightarrow> (Inl e, hs')
      | (Inr v, hs') \<Rightarrow> build_values env frm feats (vals @ [v]) hs')"

text \<open>The body of the \<^verbatim>\<open>try\<close> block: the prediction string, or the exception raised.\<close>

definition try_predict :: "serving_env \<Rightarrow> form \<Rightarrow> handler_state \<Rightarrow> (exn + string) \<times> handler_state" where
  "try_predict env frm hs =
     (case build_values env frm FEATURES [] hs of
        (Inl e, hs') \<Rightarrow> (Inl e, hs')
      | (Inr vals, hs') \<Rightarrow>
          (case scaler_transform env vals of
             Inl e \<Rightarrow> (Inl e, hs')
           | Inr scaled_array \<Rightarrow>
               (case model_predict env scaled_array of
                  Inl e \<Rightarrow> (Inl e, hs')
                | Inr pred_idx \<Rightarrow>
                    (Inr (case map_of LABELS pred_idx of
                            None \<Rightarrow> ''Unknown ('' @ str_int pred_idx @ '')''
                          | Some l \<Rightarrow> l), hs'))))"

datatype http_method = GET | POST

record request =
  req_method :: http_method
  form_data :: form

record response =
  prediction :: "string option"
  features :: "string list"
  defaults_shown :: pydict
  op_modes :: "string list"

text \<open>
  The handler \<^verbatim>\<open>index\<close>: it takes the means file as found and the current global
  defaults, and returns the arguments of \<^verbatim>\<open>render_template\<close> with the global defaults
  as the request leaves them.
\<close>

definition index :: "serving_env \<Rightarrow> means_file \<Rightarrow> pydict \<Rightarrow> request \<Rightarrow> response \<times> pydict" where
  "index env mf d req =
     (let hs = load_feature_means mf d;
          (prediction, hs') =
            (case req_method req of
               POST \<Rightarrow>
                 (case try_predict env (form_data req) hs of
                    (Inr p, hs') \<Rightarrow> (Some p, hs')
                  | (Inl e, hs') \<Rightarrow> (Some (''Error: '' @ exn_str e), hs'))
             | GET \<Rightarrow> (None, hs))
      in (\<lparr>prediction = prediction, features = FEATURES,
           defaults_shown = current_form_values hs', op_modes = OPERATION_MODE_CHOICES\<rparr>,
          defaults hs'))"

section \<open>src/data\_processing.py: the data-preparation stage\<close>

text \<open>
  A dataframe is its columns in order, each a list of cells. \<open>Missing\<close> stands for
  pandas' NaN and NaT.
\<close>

datatype cell = Str string | IntCell int | Num real | Date datetime | Missing

type_synonym frame = "(string \<times> cell list) list"

datatype custom_exception = CustomException string exn

text \<open>\<^verbatim>\<open>df[name]\<close> raises KeyError for an unknown column; \<^verbatim>\<open>df[name] = col\<close> replaces the
  column in place or appends it.\<close>

definition get_column :: "frame \<Rightarrow> string \<Rightarrow> exn + cell list" where
  "get_column df name =
     (case map_of df name of
        None \<Rightarrow> Inl (Exn KeyError (squote @ name @ squote))
      | Some col \<Rightarrow> Inr col)"

definition set_column :: "string \<Rightarrow> cell list \<Rightarrow> frame \<Rightarrow> frame" where
  "set_column name col df = AList.update name col df"

fun select_columns :: "frame \<Rightarrow> string list \<Rightarrow> exn + frame" where
  "select_columns df [] = Inr []"
| "select_columns df (name # names) =
     (case get_column df name of
        Inl e \<Rightarrow> Inl e
      | Inr col \<Rightarrow>
          (case select_columns df names of
             Inl e \<Rightarrow> Inl e
           | Inr rest \<Rightarrow> Inr ((name, col) # rest)))"

definition drop_columns :: "string list \<Rightarrow> frame \<Rightarrow> exn + frame" where
  "drop_columns names df =
     (case filter (\<lambda>n. map_of df n = None) names of
        [] \<Rightarrow> Inr (filter (\<lambda>(k, col). k \<notin> set names) df)
      | n # ns \<Rightarrow> Inl (Exn KeyError (squote @ n @ squote)))"

text \<open>
  \<^verbatim>\<open>sklearn.preprocessing.LabelEncoder\<close> on a column of strings, as the library
  documents it: \<^verbatim>\<open>classes_\<close> holds the distinct labels in ascending order, and a label's
  code is its position in \<^verbatim>\<open>classes_\<close>. Python compares strings by code point,
  lexicographically.
\<close>

definition classes_of :: "string list \<Rightarrow> string list" where
  "classes_of ys = sort (remdups ys)"

definition index_of :: "'a list \<Rightarrow> 'a \<Rightarrow> nat" where
  "index_of xs x = length (takeWhile (\<lambda>y. y \<noteq> x) xs)"

definition label_code :: "string list \<Rightarrow> string \<Rightarrow> nat" where
  "label_code ys y = index_of (classes_of ys) y"

text \<open>The mapping \<^verbatim>\<open>dict(zip(le.classes_, range(len(le.classes_))))\<close> that preprocess logs.\<close>

definition label_mapping :: "string list \<Rightarrow> (string \<times> int) list" where
  "label_mapping ys = zip (classes_of ys) (map int [0..<length (classes_of ys)])"

fun strings_of :: "cell list \<Rightarrow> string list option" where
  "strings_of [] = Some []"
| "strings_of (Str s # cs) = map_option (\<lambda>ys. s # ys) (strings_of cs)"
| "strings_of (c # cs) = None"

text \<open>
  The library calls of the stage. \<open>to_datetime\<close> is \<^verbatim>\<open>pd.to_datetime(col, errors="coerce")\<close>,
  with \<open>None\<close> for NaT; \<open>encode_other\<close> is what the label encoder does with a column
  that is not made of strings only; \<open>scaler_fit_transform\<close> is
  \<^verbatim>\<open>StandardScaler().fit_transform(X)\<close>, giving the fitted scaler and the scaled array.
\<close>

record split_options =
  test_size :: pyfloat
  random_state :: int
  stratify :: "cell list option"

record ('a, 's) processing_env =
  read_csv :: "string \<Rightarrow> exn + frame"
  to_datetime :: "cell list \<Rightarrow> datetime option list"
  encode_other :: "cell list \<Rightarrow> exn + cell list"
  scaler_fit_transform :: "frame \<Rightarrow> exn + 's \<times> 'a"
  train_test_split :: "'a \<Rightarrow> cell list \<Rightarrow> split_options \<Rightarrow> exn + 'a \<times> 'a \<times> cell list \<times> cell list"

definition fit_transform_labels :: "('a, 's) processing_env \<Rightarrow> cell list \<Rightarrow> exn + cell list" where
  "fit_transform_labels env col =
     (case strings_of col of
        Some ys \<Rightarrow> Inr (map (\<lambda>y. IntCell (int (label_code ys y))) ys)
      | None \<Rightarrow> encode_other env col)"

record data_processing =
  input_path :: string
  output_path :: string
  df :: "frame option"
  features_used :: "string list option"

definition DataProcessing :: "string \<Rightarrow> string \<Rightarrow> data_processing" where
  "DataProcessing inp out = \<lparr>input_path = inp, output_path = out, df = None, features_used = None\<rparr>"

definition load_data :: "('a, 's) processing_env \<Rightarrow> data_processing \<Rightarrow> (custom_exception + unit) \<times> data_processing" where
  "load_data env self =
     (case read_csv env (input_path self) of
        Inl e \<Rightarrow> (Inl (CustomException ''Failed to load data'' e), self)
      | Inr d \<Rightarrow> (Inr (), self\<lparr>df := Some d\<rparr>))"

text \<open>
  Each statement of preprocess either changes the dataframe in place or raises; what
  was changed before a raise stays changed.
\<close>

fun run_steps :: "(frame \<Rightarrow> exn + frame) list \<Rightarrow> frame \<Rightarrow> (exn + unit) \<times> frame" where
  "run_steps [] d = (Inr (), d)"
| "run_steps (step # steps) d =
     (case step d of
        Inl e \<Rightarrow> (Inl e, d)
      | Inr d' \<Rightarrow> run_steps steps d')"

definition parse_timestamp :: "('a, 's) processing_env \<Rightarrow> frame \<Rightarrow> exn + frame" where
  "parse_timestamp env d =
     (case get_column d ''Timestamp'' of
        Inl e \<Rightarrow> Inl e
      | Inr col \<Rightarrow>
          Inr (set_column ''Timestamp''
                 (map (\<lambda>t. case t of None \<Rightarrow> Missing | Some dt \<Rightarrow> Date dt) (to_datetime env col)) d))"

definition astype_category :: "string \<Rightarrow> frame \<Rightarrow> exn + frame" where
  "astype_category name d =
     (case get_column d name of
        Inl e \<Rightarrow> Inl e
      | Inr col \<Rightarrow> Inr (set_column name col d))"

text \<open>The \<^verbatim>\<open>.dt\<close> accessor: a calendar part of each timestamp, missing where the timestamp is.\<close>

fun dt_field :: "(datetime \<Rightarrow> int) \<Rightarrow> cell list \<Rightarrow> exn + cell list" where
  "dt_field part [] = Inr []"
| "dt_field part (c # cs) =
     (case (case c of Date dt \<Rightarrow> Some (IntCell (part dt)) | Missing \<Rightarrow> Some Missing | _ \<Rightarrow> None) of
        None \<Rightarrow> Inl (Exn (OtherException ''AttributeError'') ''Can only use .dt accessor with datetimelike values'')
      | Some v \<Rightarrow>
          (case dt_field part cs of
             Inl e \<Rightarrow> Inl e
           | Inr vs \<Rightarrow> Inr (v # vs)))"

definition calendar_column :: "string \<Rightarrow> (datetime \<Rightarrow> int) \<Rightarrow> frame \<Rightarrow> exn + frame" where
  "calendar_column name part d =
     (case get_column d ''Timestamp'' of
        Inl e \<Rightarrow> Inl e
      | Inr col \<Rightarrow>
          (case dt_field part col of
             Inl e \<Rightarrow> Inl e
           | Inr vs \<Rightarrow> Inr (set_column name vs d)))"

definition label_encode :: "('a, 's) processing_env \<Rightarrow> string \<Rightarrow> frame \<Rightarrow> exn + frame" where
  "label_encode env name d =
     (case get_column d name of
        Inl e \<Rightarrow> Inl e
      | Inr col \<Rightarrow>
          (case fit_transform_labels env col of
             Inl e \<Rightarrow> Inl e
           | Inr codes \<Rightarrow> Inr (set_column name codes d)))"

definition preprocess_steps :: "('a, 's) processing_env \<Rightarrow> (frame \<Rightarrow> exn + frame) list" where
  "preprocess_steps env =
     [parse_timestamp env,
      astype_category ''Operation_Mode'',
      astype_category ''Efficiency_Status'',
      calendar_column ''Year'' year,
      calendar_column ''Month'' month,
      calendar_column ''Day'' day,
      calendar_column ''Hour'' hour,
      drop_columns [''Timestamp'', ''Machine_ID''],
      label_encode env ''Efficiency_Status'',
      label_encode env ''Operation_Mode'']"

definition preprocess :: "('a, 's) processing_env \<Rightarrow> data_processing \<Rightarrow> (custom_exception + unit) \<times> data_processing" where
  "preprocess env self =
     (case df self of
        None \<Rightarrow>
          (Inl (CustomException ''Failed to preprocess data''
                  (Exn ValueError ''Dataframe is not loaded. Call `load_data()` first.'')), self)
      | Some d \<Rightarrow>
          (case run_steps (preprocess_steps env) d of
             (Inl e, d') \<Rightarrow> (Inl (CustomException ''Failed to preprocess data'' e), self\<lparr>df := Some d'\<rparr>)
           | (Inr u, d') \<Rightarrow> (Inr (), self\<lparr>df := Some d'\<rparr>)))"

definition training_features :: "string list" where
  "training_features =
    [''Operation_Mode'', ''Temperature_C'', ''Vibration_Hz'', ''Power_Consumption_kW'',
     ''Network_Latency_ms'', ''Packet_Loss_%'', ''Quality_Control_Defect_Rate_%'',
     ''Production_Speed_units_per_hr'', ''Predictive_Maintenance_Score'', ''Error_Rate_%'',
     ''Year'', ''Month'', ''Day'', ''Hour'']"

text \<open>What \<^verbatim>\<open>joblib.dump\<close> writes: the artefact store maps a path to the object dumped there.\<close>

datatype ('a, 's) artefact = Array 'a | Series "cell list" | FittedScaler 's

definition os_path_join :: "string \<Rightarrow> string \<Rightarrow> string" where
  "os_path_join a b = (if a = [] then b else if last a = CHR ''/'' then a @ b else a @ ''/'' @ b)"

definition split_and_scale_and_save ::
  "('a, 's) processing_env \<Rightarrow> data_processing \<Rightarrow> (string \<rightharpoonup> ('a, 's) artefact) \<Rightarrow>
   (custom_exception + unit) \<times> data_processing \<times> (string \<rightharpoonup> ('a, 's) artefact)" where
  "split_and_scale_and_save env self store =
     (case df self of
        None \<Rightarrow>
          (Inl (CustomException ''Failed to split, scale, and save data''
                  (Exn ValueError ''Dataframe is not loaded. Call `load_data()` first.'')), self, store)
      | Some d \<Rightarrow>
          (let self1 = self\<lparr>features_used := Some training_features\<rparr>;
               failed = (\<lambda>e. (Inl (CustomException ''Failed to split, scale, and save data'' e), self1, store))
           in case select_columns d training_features of
                Inl e \<Rightarrow> failed e
              | Inr X \<Rightarrow>
                  (case get_column d ''Efficiency_Status'' of
                     Inl e \<Rightarrow> failed e
                   | Inr y \<Rightarrow>
                       (case scaler_fit_transform env X of
                          Inl e \<Rightarrow> failed e
                        | Inr (scaler, X_scaled) \<Rightarrow>
                            (case train_test_split env X_scaled y
                                    \<lparr>test_size = Finite (2 / 10), random_state = 42, stratify = Some y\<rparr> of
                               Inl e \<Rightarrow> failed e
                             | Inr (X_train, X_test, y_train, y_test) \<Rightarrow>
                                 (Inr (), self1,
                                  store(os_path_join (output_path self) ''X_train.pkl'' \<mapsto> Array X_train,
                                        os_path_join (output_path self) ''X_test.pkl'' \<mapsto> Array X_test,
                                        os_path_join (output_path self) ''y_train.pkl'' \<mapsto> Series y_train,
                                        os_path_join (output_path self) ''y_test.pkl'' \<mapsto> Series y_test,
                                        os_path_join (output_path self) ''scaler.pkl'' \<mapsto> FittedScaler scaler)))))))"

definition run_processing ::
  "('a, 's) processing_env \<Rightarrow> data_processing \<Rightarrow> (string \<rightharpoonup> ('a, 's) artefact) \<Rightarrow>
   (custom_exception + unit) \<times> data_processing \<times> (string \<rightharpoonup> ('a, 's) artefact)" where
  "run_processing env self store =
     (case load_data env self of
        (Inl e, self1) \<Rightarrow> (Inl e, self1, store)
      | (Inr u, self1) \<Rightarrow>
          (case preprocess env self1 of
             (Inl e, self2) \<Rightarrow> (Inl e, self2, store)
           | (Inr u, self2) \<Rightarrow> split_and_scale_and_save env self2 store))"

text \<open>
  The first-seen numbering the specification describes, for comparison with the encoder
  above: distinct labels in the order of their first occurrence.
\<close>

definition first_seen_classes :: "string list \<Rightarrow> string list" where
  "first_seen_classes ys = rev (remdups (rev ys))"

definition first_seen_code :: "string list \<Rightarrow> string \<Rightarrow> nat" where
  "first_seen_code ys y = index_of (first_seen_classes ys) y"

section \<open>src/model\_training.py: the training stage\<close>

text \<open>
  The objects the stage loads and the classifier it fits are opaque values of type \<open>'o\<close>.
  An attribute that was never assigned is \<open>None\<close>. The library calls: \<open>lr_fit\<close> is
  \<^verbatim>\<open>LogisticRegression(random_state=42, max_iter=1000).fit(X_train, y_train)\<close>, which
  receives whatever the two attributes hold; \<open>lr_predict\<close> is \<^verbatim>\<open>clf.predict(X_test)\<close> on
  an estimator that is fitted or not; the four scores are the metric functions on
  \<^verbatim>\<open>y_test\<close> and the prediction. Calls to the logger are left out. The stage's
  \<^verbatim>\<open>load_data\<close> and \<^verbatim>\<open>run\<close> are \<open>load_data_training\<close> and \<open>run_training\<close> here.
\<close>

datatype 'o estimator = Unfitted | Fitted 'o

record lr_params =
  lr_random_state :: int
  max_iter :: int

record 'o training_env =
  lr_fit :: "lr_params \<Rightarrow> 'o option \<Rightarrow> 'o option \<Rightarrow> exn + 'o"
  lr_predict :: "'o estimator \<Rightarrow> 'o option \<Rightarrow> exn + 'o"
  accuracy_score :: "'o option \<Rightarrow> 'o \<Rightarrow> exn + pyfloat"
  precision_score :: "'o option \<Rightarrow> 'o \<Rightarrow> exn + pyfloat"
  recall_score :: "'o option \<Rightarrow> 'o \<Rightarrow> exn + pyfloat"
  f1_score :: "'o option \<Rightarrow> 'o \<Rightarrow> exn + pyfloat"

record 'o model_training =
  processed_path :: string
  model_path :: string
  clf :: "'o estimator option"
  X_train :: "'o option"
  X_test :: "'o option"
  y_train :: "'o option"
  y_test :: "'o option"

definition ModelTraining :: "string \<Rightarrow> string \<Rightarrow> 'o model_training" where
  "ModelTraining processed_data_path model_output_path =
     \<lparr>processed_path = processed_data_path, model_path = model_output_path, clf = None,
      X_train = None, X_test = None, y_train = None, y_test = None\<rparr>"

definition joblib_load :: "(string \<rightharpoonup> 'o) \<Rightarrow> string \<Rightarrow> exn + 'o" where
  "joblib_load store path =
     (case store path of
        None \<Rightarrow> Inl (Exn (OtherException ''FileNotFoundError'') (''[Errno 2] No such file or directory: '' @ squote @ path @ squote))
      | Some obj \<Rightarrow> Inr obj)"

definition load_data_training :: "(string \<rightharpoonup> 'o) \<Rightarrow> 'o model_training \<Rightarrow> (custom_exception + unit) \<times> 'o model_training" where
  "load_data_training store self =
     (let failed = (\<lambda>e s. (Inl (CustomException ''Failed to load processed data'' e), s))
      in case joblib_load store (os_path_join (processed_path self) ''X_train.pkl'') of
           Inl e \<Rightarrow> failed e self
         | Inr a \<Rightarrow>
             (let self1 = self\<lparr>X_train := Some a\<rparr>
              in case joblib_load store (os_path_join (processed_path self) ''X_test.pkl'') of
                   Inl e \<Rightarrow> failed e self1
                 | Inr b \<Rightarrow>
                     (let self2 = self1\<lparr>X_test := Some b\<rparr>
                      in case joblib_load store (os_path_join (processed_path self) ''y_train.pkl'') of
                           Inl e \<Rightarrow> failed e self2
                         | Inr c \<Rightarrow>
                             (let self3 = self2\<lparr>y_train := Some c\<rparr>
                              in case joblib_load store (os_path_join (processed_path self) ''y_test.pkl'') of
                                   Inl e \<Rightarrow> failed e self3
                                 | Inr d \<Rightarrow> (Inr (), self3\<lparr>y_test := Some d\<rparr>)))))"

definition train_model ::
  "'o training_env \<Rightarrow> 'o model_training \<Rightarrow> (string \<rightharpoonup> 'o) \<Rightarrow>
   (custom_exception + unit) \<times> 'o model_training \<times> (string \<rightharpoonup> 'o)" where
  "train_model env self store =
     (let self1 = self\<lparr>clf := Some Unfitted\<rparr>
      in case lr_fit env \<lparr>lr_random_state = 42, max_iter = 1000\<rparr> (X_train self) (y_train self) of
           Inl e \<Rightarrow> (Inl (CustomException ''Failed to train model'' e), self1, store)
         | Inr fitted \<Rightarrow>
             (Inr (), self1\<lparr>clf := Some (Fitted fitted)\<rparr>,
              store(os_path_join (model_path self) ''model.pkl'' \<mapsto> fitted)))"

record metrics =
  accuracy :: pyfloat
  precision :: pyfloat
  recall :: pyfloat
  f1 :: pyfloat

text \<open>\<^verbatim>\<open>evaluate_model\<close> returns nothing; the model returns the four values it logs.\<close>

definition evaluate_model :: "'o training_env \<Rightarrow> 'o model_training \<Rightarrow> custom_exception + metrics" where
  "evaluate_model env self =
     (let failed = (\<lambda>e. Inl (CustomException ''Failed to evaluate model'' e))
      in case clf self of
           None \<Rightarrow> failed (Exn ValueError ''Model not trained. Call `train_model()` before evaluation.'')
         | Some est \<Rightarrow>
             (case lr_predict env est (X_test self) of
                Inl e \<Rightarrow> failed e
              | Inr y_pred \<Rightarrow>
                  (case accuracy_score env (y_test self) y_pred of
                     Inl e \<Rightarrow> failed e
                   | Inr a \<Rightarrow>
                       (case precision_score env (y_test self) y_pred of
                          Inl e \<Rightarrow> failed e
                        | Inr p \<Rightarrow>
                            (case recall_score env (y_test self) y_pred of
                               Inl e \<Rightarrow> failed e
                             | Inr r \<Rightarrow>
                                 (case f1_score env (y_test self) y_pred of
                                    Inl e \<Rightarrow> failed e
                                  | Inr f \<Rightarrow> Inr \<lparr>accuracy = a, precision = p, recall = r, f1 = f\<rparr>))))))"

definition run_training ::
  "'o training_env \<Rightarrow> 'o model_training \<Rightarrow> (string \<rightharpoonup> 'o) \<Rightarrow>
   (custom_exception + metrics) \<times> 'o model_training \<times> (string \<rightharpoonup> 'o)" where
  "run_training env self store =
     (case load_data_training store self of
        (Inl e, self1) \<Rightarrow> (Inl e, self1, store)
      | (Inr u, self1) \<Rightarrow>
          (case train_model env self1 store of
             (Inl e, self2, store2) \<Rightarrow> (Inl e, self2, store2)
           | (Inr u, self2, store2) \<Rightarrow> (evaluate_model env self2, self2, store2)))"

section \<open>Concrete inputs\<close>

text \<open>
  Small concrete environments and inputs on which the theorems below are evaluated.
  \<open>decimal_float\<close> agrees with \<^verbatim>\<open>float\<close> on plain decimal strings (digits, with an optional
  minus sign and an optional fraction part) and \<open>tenths_str\<close> with \<^verbatim>\<open>str\<close> on non-negative values
  with at most one fractional digit; they stand for the builtins on such inputs only. The
  general theorems hold for every environment.
\<close>

definition digit_of :: "char \<Rightarrow> nat option" where
  "digit_of c = (let n = (of_char c :: nat) in if 48 \<le> n \<and> n \<le> 57 then Some (n - 48) else None)"

fun digits_value :: "string \<Rightarrow> nat \<Rightarrow> nat option" where
  "digits_value [] acc = Some acc"
| "digits_value (c # cs) acc =
     (case digit_of c of None \<Rightarrow> None | Some d \<Rightarrow> digits_value cs (10 * acc + d))"

definition decimal_float :: "string \<Rightarrow> exn + pyfloat" where
  "decimal_float s =
     (let neg = (s \<noteq> [] \<and> hd s = CHR ''-'');
          body = (if neg then tl s else s);
          ip = takeWhile (\<lambda>c. c \<noteq> CHR ''.'') body;
          has_dot = (length ip < length body);
          fp = drop (Suc (length ip)) body
      in case (if ip = [] \<or> (has_dot \<and> fp = []) then None else digits_value ip 0, digits_value fp 0) of
           (Some a, Some b) \<Rightarrow>
             Inr (Finite ((if neg then - 1 else 1) * (real a + real b / 10 ^ length fp)))
         | _ \<Rightarrow> Inl (Exn ValueError (''could not convert string to float: '' @ squote @ s @ squote)))"

definition tenths_str :: "pyfloat \<Rightarrow> string" where
  "tenths_str f =
     (case f of
        Finite r \<Rightarrow> str_int \<lfloor>r\<rfloor> @ ''.'' @ str_nat (nat (\<lfloor>r * 10\<rfloor> mod 10))
      | PosInf \<Rightarrow> ''inf'' | NegInf \<Rightarrow> ''-inf'' | NaN \<Rightarrow> ''nan'')"

definition demo_env :: serving_env where
  "demo_env = \<lparr>py_float = decimal_float, str_float = tenths_str,
               scaler_transform = (\<lambda>v. Inr v), model_predict = (\<lambda>v. Inr 0)\<rparr>"

definition demo_now :: datetime where
  "demo_now = \<lparr>year = 2024, month = 1, day = 15, hour = 10\<rparr>"

definition empty_form :: form where
  "empty_form = Map.empty"


definition raising_model_env :: serving_env where
  "raising_model_env = demo_env\<lparr>model_predict := (\<lambda>v. Inl (Exn (OtherException ''NotFittedError'') ''This LogisticRegression instance is not fitted yet.''))\<rparr>"

definition turbo_form :: form where
  "turbo_form = map_of [(''Operation_Mode'', ''Turbo''), (''Temperature_C'', ''70.5'')]"

definition hot_form :: form where
  "hot_form = map_of [(''Operation_Mode'', ''Active''), (''Temperature_C'', ''hot'')]"

definition demo_modes :: "string list" where
  "demo_modes = [''Idle'', ''Active'', ''Maintenance'', ''Idle'']"

definition demo_timestamp :: "cell \<Rightarrow> datetime option" where
  "demo_timestamp c =
     (if c = Str ''2024-01-15 10:00:00'' then Some \<lparr>year = 2024, month = 1, day = 15, hour = 10\<rparr>
      else None)"

definition demo_processing_env :: "(cell list list, string list) processing_env" where
  "demo_processing_env =
     \<lparr>read_csv = (\<lambda>path. Inl (Exn (OtherException ''FileNotFoundError'') path)),
      to_datetime = map demo_timestamp,
      encode_other = (\<lambda>col. Inl (Exn (OtherException ''TypeError'') ''Encoders require their input argument must be uniformly strings or numbers.'')),
      scaler_fit_transform = (\<lambda>X. Inr (map fst X, map snd X)),
      train_test_split = (\<lambda>X y opts. Inr (map tl X, map (take 1) X, tl y, take 1 y))\<rparr>"

definition demo_raw :: frame where
  "demo_raw =
     [(''Timestamp'', [Str ''2024-01-15 10:00:00'', Str ''yesterday'']),
      (''Machine_ID'', [IntCell 1, IntCell 2]),
      (''Operation_Mode'', [Str ''Idle'', Str ''Active'']),
      (''Temperature_C'', [Num 65, Num 80]),
      (''Efficiency_Status'', [Str ''Low'', Str ''High''])]"

definition demo_prepared :: frame where
  "demo_prepared =
     [(''Operation_Mode'', [IntCell 1, IntCell 0]),
      (''Temperature_C'', [Num 65, Num 80]),
      (''Vibration_Hz'', [Num 50, Num 51]),
      (''Power_Consumption_kW'', [Num 35, Num 36]),
      (''Network_Latency_ms'', [Num 15, Num 16]),
      (''Packet_Loss_%'', [Num 1, Num 2]),
      (''Quality_Control_Defect_Rate_%'', [Num 1, Num 2]),
      (''Production_Speed_units_per_hr'', [Num 120, Num 121]),
      (''Predictive_Maintenance_Score'', [Num 55, Num 56]),
      (''Error_Rate_%'', [Num 1, Num 2]),
      (''Efficiency_Status'', [IntCell 1, IntCell 0]),
      (''Year'', [IntCell 2024, Missing]),
      (''Month'', [IntCell 1, Missing]),
      (''Day'', [IntCell 15, Missing]),
      (''Hour'', [IntCell 10, Missing])]"

definition demo_loaded :: data_processing where
  "demo_loaded = (DataProcessing ''artifacts/raw/data.csv'' ''artifacts/processed'')\<lparr>df := Some demo_raw\<rparr>"

definition demo_ready :: data_processing where
  "demo_ready = (DataProcessing ''artifacts/raw/data.csv'' ''artifacts/processed'')\<lparr>df := Some demo_prepared\<rparr>"

definition empty_store :: "string \<rightharpoonup> 'v" where
  "empty_store = Map.empty"

definition demo_training_env :: "string training_env" where
  "demo_training_env =
     \<lparr>lr_fit = (\<lambda>params X y.
         case (X, y) of
           (Some a, Some b) \<Rightarrow> Inr (''LogisticRegression fitted on '' @ a)
         | _ \<Rightarrow> Inl (Exn ValueError ''This LogisticRegression estimator requires y to be passed, but the target y is None.'')),
      lr_predict = (\<lambda>est X.
         case (est, X) of
           (Fitted m, Some x) \<Rightarrow> Inr (''predictions for '' @ x)
         | _ \<Rightarrow> Inl (Exn (OtherException ''NotFittedError'') ''This LogisticRegression instance is not fitted yet.'')),
      accuracy_score = (\<lambda>y p. Inr (Finite 0)),
      precision_score = (\<lambda>y p. Inr (Finite 0)),
      recall_score = (\<lambda>y p. Inr (Finite 0)),
      f1_score = (\<lambda>y p. Inr (Finite 0))\<rparr>"

definition demo_trainer :: "string model_training" where
  "demo_trainer = ModelTraining ''artifacts/processed/'' ''artifacts/models/''"

definition demo_processed_store :: "string \<rightharpoonup> string" where
  "demo_processed_store =
     map_of [(''artifacts/processed/X_train.pkl'', ''X_train''),
             (''artifacts/processed/X_test.pkl'', ''X_test''),
             (''artifacts/processed/y_train.pkl'', ''y_train''),
             (''artifacts/processed/y_test.pkl'', ''y_test'')]"

text \<open>Record \<open>i\<close> of column \<open>name\<close> holds the missing-value marker.\<close>

definition missing_at :: "nat \<Rightarrow> string \<Rightarrow> frame \<Rightarrow> bool" where
  "missing_at i name d = (\<exists>c. get_column d name = Inr c \<and> i < length c \<and> c ! i = Missing)"


section \<open>Serving: what a request's fields become\<close>

lemmas ev = decimal_float_def digit_of_def tenths_str_def str_int_def str_nat.simps digit_char_def
  demo_env_def demo_now_def empty_form_def FEATURES_def feature_value_def load_feature_means_def DEFAULTS_FALLBACK_def
  OPERATION_MODE_CHOICES_def OPERATION_MODE_MAP_def float_of_int_def set_form_value_def squote_def default_text_def

lemma feature_value_cong:
  "frm feat = frm' feat \<Longrightarrow> feature_value env frm feat hs = feature_value env frm' feat hs"
  by (cases "feat = ''Operation_Mode''") (simp_all add: feature_value_def)

lemma build_values_cong:
  "(\<And>f. f \<in> set feats \<Longrightarrow> frm f = frm' f) \<Longrightarrow>
   build_values env frm feats vals hs = build_values env frm' feats vals hs"
proof (induction feats arbitrary: vals hs)
  case Nil
  show ?case by simp
next
  case (Cons f fs)
  have "feature_value env frm f hs = feature_value env frm' f hs"
    by (rule feature_value_cong) (simp add: Cons.prems)
  moreover have "\<And>v h. build_values env frm fs v h = build_values env frm' fs v h"
    by (rule Cons.IH) (simp add: Cons.prems)
  ultimately show ?case by (simp split: prod.splits sum.splits)
qed

lemma unknown_mode_step:
  assumes "frm ''Operation_Mode'' = Some l" and "map_of OPERATION_MODE_MAP l = None"
  shows "feature_value env frm ''Operation_Mode'' hs =
         (Inl (Exn ValueError (''Unknown Operation_Mode '' @ squote @ l @ squote @ ''.'')), hs)"
  using assms by (simp add: feature_value_def)

lemma FEATURES_split: "FEATURES = ''Operation_Mode'' # tl FEATURES"
  by (simp add: FEATURES_def)

lemma index_post:
  "index env mf d \<lparr>req_method = POST, form_data = frm\<rparr> =
     (case try_predict env frm (load_feature_means mf d) of
        (Inr p, hs') \<Rightarrow>
          (\<lparr>prediction = Some p, features = FEATURES,
            defaults_shown = current_form_values hs', op_modes = OPERATION_MODE_CHOICES\<rparr>, defaults hs')
      | (Inl e, hs') \<Rightarrow>
          (\<lparr>prediction = Some (''Error: '' @ exn_str e), features = FEATURES,
            defaults_shown = current_form_values hs', op_modes = OPERATION_MODE_CHOICES\<rparr>, defaults hs'))"
  by (simp add: index_def Let_def split: prod.splits sum.splits)

lemma try_predict_build_error:
  "build_values env frm FEATURES [] hs = (Inl e, hs') \<Longrightarrow> try_predict env frm hs = (Inl e, hs')"
  by (simp add: try_predict_def)

text \<open>
  Claim C2. When a request carries an \<^verbatim>\<open>Operation_Mode\<close> label that is not a key of
  \<^verbatim>\<open>OPERATION_MODE_MAP\<close>, building the feature vector stops at once with the error
  \<^verbatim>\<open>Unknown Operation_Mode '<label>'.\<close> (a \<^verbatim>\<open>ValueError\<close> in the code), no value is
  appended for the label, nothing is written to the defaults, and the response shows
  the error text after \<^verbatim>\<open>Error: \<close>. This holds whatever the builtins, the scaler and
  the classifier do.
\<close>

theorem unknown_operation_mode_reported:
  assumes "frm ''Operation_Mode'' = Some l" and "map_of OPERATION_MODE_MAP l = None"
  shows "build_values env frm FEATURES [] hs =
           (Inl (Exn ValueError (''Unknown Operation_Mode '' @ squote @ l @ squote @ ''.'')), hs)
         \<and> index env mf d \<lparr>req_method = POST, form_data = frm\<rparr> =
           (\<lparr>prediction = Some (''Error: Unknown Operation_Mode '' @ squote @ l @ squote @ ''.''),
             features = FEATURES,
             defaults_shown = current_form_values (load_feature_means mf d),
             op_modes = OPERATION_MODE_CHOICES\<rparr>, d)"
proof -
  have b: "\<And>hs. build_values env frm FEATURES [] hs =
           (Inl (Exn ValueError (''Unknown Operation_Mode '' @ squote @ l @ squote @ ''.'')), hs)"
    using assms by (subst FEATURES_split) (simp add: unknown_mode_step)
  have "defaults (load_feature_means mf d) = d"
    by (simp add: load_feature_means_def split: means_file.splits)
  then show ?thesis
    by (simp add: b index_post try_predict_build_error [OF b])
qed

theorem unknown_operation_mode_reported_witness:
  "turbo_form ''Operation_Mode'' = Some ''Turbo'' \<and> map_of OPERATION_MODE_MAP ''Turbo'' = None \<and>
   prediction (fst (index demo_env NoFile (DEFAULTS_FALLBACK demo_now) \<lparr>req_method = POST, form_data = turbo_form\<rparr>))
     = Some (''Error: Unknown Operation_Mode '' @ squote @ ''Turbo'' @ squote @ ''.'')"
proof -
  have h1: "turbo_form ''Operation_Mode'' = Some ''Turbo''" by (simp add: turbo_form_def)
  have h2: "map_of OPERATION_MODE_MAP ''Turbo'' = None" by (simp add: OPERATION_MODE_MAP_def)
  show ?thesis
    using unknown_operation_mode_reported [of turbo_form "''Turbo''" demo_env _ NoFile "DEFAULTS_FALLBACK demo_now"] h1 h2
    by simp
qed

lemma map_of_update_other:
  "k \<noteq> k' \<Longrightarrow> map_of (AList.update k v al) k' = map_of al k'"
  by (simp add: update_conv')

lemma defaults_set_form_value:
  "k \<noteq> k' \<Longrightarrow> map_of (defaults (set_form_value k v hs)) k' = map_of (defaults hs) k'"
  by (simp add: set_form_value_def map_of_update_other split: option.splits)

lemma feature_value_keeps_default:
  "f \<noteq> feat \<Longrightarrow> feature_value env frm f hs = (r, hs') \<Longrightarrow>
   map_of (defaults hs') feat = map_of (defaults hs) feat"
  by (auto simp: feature_value_def Let_def defaults_set_form_value split: if_splits option.splits sum.splits)

lemma absent_numeric_step:
  assumes "feat \<noteq> ''Operation_Mode''" and "frm feat = None"
    and "frm' feat = Some (default_text env d feat)"
    and "map_of (defaults hs) feat = map_of d feat"
  shows "feature_value env frm feat hs = feature_value env frm' feat hs"
  using assms by (simp add: feature_value_def default_text_def)

lemma build_values_absent_numeric:
  assumes "feat \<noteq> ''Operation_Mode''" and "frm feat = None"
    and new: "frm' feat = Some (default_text env d feat)"
    and same: "\<And>x. x \<noteq> feat \<Longrightarrow> frm' x = frm x"
  shows "distinct feats \<Longrightarrow> map_of (defaults hs) feat = map_of d feat \<Longrightarrow>
         build_values env frm feats vals hs = build_values env frm' feats vals hs"
proof (induction feats arbitrary: vals hs)
  case Nil
  show ?case by simp
next
  case (Cons f fs)
  show ?case
  proof (cases "f = feat")
    case True
    have step: "feature_value env frm f hs = feature_value env frm' f hs"
      unfolding True by (rule absent_numeric_step) (use assms Cons.prems(2) in simp_all)
    have "feat \<notin> set fs" using Cons.prems(1) True by simp
    then have rest: "\<And>v h. build_values env frm fs v h = build_values env frm' fs v h"
      by (intro build_values_cong) (metis same)
    show ?thesis
    proof (cases "feature_value env frm' f hs")
      case (Pair r h)
      then show ?thesis using step rest by (cases r) simp_all
    qed
  next
    case False
    have step: "feature_value env frm f hs = feature_value env frm' f hs"
      by (rule feature_value_cong) (simp add: False same)
    have rest: "build_values env frm fs v h = build_values env frm' fs v h"
      if "feature_value env frm' f hs = (r, h)" for r v h
    proof (rule Cons.IH)
      show "distinct fs" using Cons.prems(1) by simp
      show "map_of (defaults h) feat = map_of d feat"
        using feature_value_keeps_default [OF False that] Cons.prems(2) by simp
    qed
    show ?thesis
    proof (cases "feature_value env frm' f hs")
      case (Pair r h)
      then show ?thesis using step rest [OF Pair] by (cases r) simp_all
    qed
  qed
qed

lemma distinct_FEATURES: "distinct FEATURES"
  by (simp add: FEATURES_def)

lemma defaults_load: "defaults (load_feature_means mf d) = d"
  by (simp add: load_feature_means_def split: means_file.splits)

text \<open>
  Claim C3, amended. For every submission that lacks a field other than
  \<^verbatim>\<open>Operation_Mode\<close>, the handler raises no error for the absence: it takes
  \<^verbatim>\<open>str\<close> of that feature's current entry in \<^verbatim>\<open>DEFAULTS_FALLBACK\<close> (of 0.0 when there is
  no entry) as the raw value, and the whole request is handled exactly as if the field
  had been submitted with that string.
\<close>

theorem absent_numeric_field_uses_default:
  assumes "feat \<noteq> ''Operation_Mode''" and "frm feat = None"
  shows "index env mf d \<lparr>req_method = POST, form_data = frm\<rparr> =
         index env mf d \<lparr>req_method = POST, form_data = frm(feat \<mapsto> default_text env d feat)\<rparr>"
proof -
  have "build_values env frm FEATURES [] (load_feature_means mf d) =
        build_values env (frm(feat \<mapsto> default_text env d feat)) FEATURES [] (load_feature_means mf d)"
    by (rule build_values_absent_numeric [where feat = feat and d = d])
       (use assms in \<open>simp_all add: distinct_FEATURES defaults_load\<close>)
  then show ?thesis
    by (simp add: index_def try_predict_def)
qed

lemma demo_default_text:
  "default_text demo_env (DEFAULTS_FALLBACK demo_now) ''Temperature_C'' = ''65.0''"
  by (simp add: default_text_def DEFAULTS_FALLBACK_def demo_env_def tenths_str_def str_int_def
                str_nat.simps digit_char_def)

lemma build_empty_demo:
  "fst (build_values demo_env empty_form FEATURES [] (load_feature_means NoFile (DEFAULTS_FALLBACK demo_now))) =
   Inr [Finite 0, Finite 65, Finite 50, Finite 35, Finite 15, Finite (5 / 10), Finite 1,
        Finite 120, Finite 55, Finite (8 / 10), Finite 2024, Finite 1, Finite 15, Finite 10]"
  by (simp add: ev)

text \<open>
  Claim C3 as stated fails: a submission with no field at all is prepared without any
  error, every position holding the built-in default.
\<close>

theorem missing_field_counterexample:
  "fst (build_values demo_env empty_form FEATURES [] (load_feature_means NoFile (DEFAULTS_FALLBACK demo_now))) =
   Inr [Finite 0, Finite 65, Finite 50, Finite 35, Finite 15, Finite (5 / 10), Finite 1,
        Finite 120, Finite 55, Finite (8 / 10), Finite 2024, Finite 1, Finite 15, Finite 10]"
  by (rule build_empty_demo)

theorem absent_numeric_field_uses_default_witness:
  "''Temperature_C'' \<noteq> ''Operation_Mode'' \<and> empty_form ''Temperature_C'' = None \<and>
   index demo_env NoFile (DEFAULTS_FALLBACK demo_now) \<lparr>req_method = POST, form_data = empty_form\<rparr> =
   index demo_env NoFile (DEFAULTS_FALLBACK demo_now)
     \<lparr>req_method = POST, form_data = empty_form(''Temperature_C'' \<mapsto> ''65.0'')\<rparr>"
proof -
  have h1: "''Temperature_C'' \<noteq> ''Operation_Mode''" by simp
  have h2: "empty_form ''Temperature_C'' = None" by (simp add: empty_form_def)
  show ?thesis
    using absent_numeric_field_uses_default [of "''Temperature_C''" empty_form demo_env NoFile
            "DEFAULTS_FALLBACK demo_now"] h1 h2
    by (simp only: demo_default_text simp_thms)
qed

text \<open>
  Claim C7. Whatever exception the body of a POST request raises, while assembling the
  values, in the scaler or in the classifier, the handler returns its response, and the
  prediction shown is \<^verbatim>\<open>Error: \<close> followed by the text of the exception.
\<close>

theorem request_errors_are_reported:
  assumes "fst (build_values env frm FEATURES [] (load_feature_means mf d)) = Inl e \<or>
           (\<exists>vals. fst (build_values env frm FEATURES [] (load_feature_means mf d)) = Inr vals \<and>
              (scaler_transform env vals = Inl e \<or>
               (\<exists>scaled. scaler_transform env vals = Inr scaled \<and> model_predict env scaled = Inl e)))"
  shows "prediction (fst (index env mf d \<lparr>req_method = POST, form_data = frm\<rparr>)) =
         Some (''Error: '' @ exn_str e)"
proof (cases "build_values env frm FEATURES [] (load_feature_means mf d)")
  case (Pair r hs')
  show ?thesis
  proof (cases r)
    case (Inl e')
    with Pair assms show ?thesis by (simp add: index_post try_predict_def)
  next
    case (Inr vals)
    with Pair assms show ?thesis
      by (auto simp: index_post try_predict_def split: sum.splits)
  qed
qed

lemma build_hot:
  "fst (build_values demo_env hot_form FEATURES [] (load_feature_means NoFile (DEFAULTS_FALLBACK demo_now))) =
   Inl (Exn ValueError (''could not convert string to float: '' @ squote @ ''hot'' @ squote))"
  by (simp add: ev hot_form_def)

lemma build_empty_raising_model:
  "fst (build_values raising_model_env empty_form FEATURES [] (load_feature_means NoFile (DEFAULTS_FALLBACK demo_now))) =
   Inr [Finite 0, Finite 65, Finite 50, Finite 35, Finite 15, Finite (5 / 10), Finite 1,
        Finite 120, Finite 55, Finite (8 / 10), Finite 2024, Finite 1, Finite 15, Finite 10]"
  by (simp add: ev raising_model_env_def)

theorem request_errors_are_reported_witness:
  "prediction (fst (index demo_env NoFile (DEFAULTS_FALLBACK demo_now) \<lparr>req_method = POST, form_data = hot_form\<rparr>)) =
     Some (''Error: could not convert string to float: '' @ squote @ ''hot'' @ squote) \<and>
   prediction (fst (index raising_model_env NoFile (DEFAULTS_FALLBACK demo_now) \<lparr>req_method = POST, form_data = empty_form\<rparr>)) =
     Some ''Error: This LogisticRegression instance is not fitted yet.''"
proof -
  have a: "prediction (fst (index demo_env NoFile (DEFAULTS_FALLBACK demo_now) \<lparr>req_method = POST, form_data = hot_form\<rparr>)) =
     Some (''Error: '' @ exn_str (Exn ValueError (''could not convert string to float: '' @ squote @ ''hot'' @ squote)))"
    by (rule request_errors_are_reported) (simp add: build_hot)
  have b: "prediction (fst (index raising_model_env NoFile (DEFAULTS_FALLBACK demo_now) \<lparr>req_method = POST, form_data = empty_form\<rparr>)) =
     Some (''Error: '' @ exn_str (Exn (OtherException ''NotFittedError'') ''This LogisticRegression instance is not fitted yet.''))"
    by (rule request_errors_are_reported)
       (simp add: build_empty_raising_model, simp add: raising_model_env_def demo_env_def)
  from a b show ?thesis by simp
qed

lemma build_values_prefix:
  "build_values env frm feats acc hs = (Inr vals, hs') \<Longrightarrow>
   \<exists>rest. vals = acc @ rest \<and> length rest = length feats"
proof (induction feats arbitrary: acc hs)
  case Nil
  then show ?case by simp
next
  case (Cons f fs)
  obtain r h where step: "feature_value env frm f hs = (r, h)"
    by (cases "feature_value env frm f hs")
  show ?case
  proof (cases r)
    case (Inl e)
    with step Cons.prems show ?thesis by simp
  next
    case (Inr v)
    with step Cons.prems have "build_values env frm fs (acc @ [v]) h = (Inr vals, hs')" by simp
    from Cons.IH [OF this] obtain rest where "vals = (acc @ [v]) @ rest" "length rest = length fs"
      by blast
    then have "vals = acc @ (v # rest) \<and> length (v # rest) = length (f # fs)" by simp
    then show ?thesis by blast
  qed
qed

lemma length_FEATURES: "length FEATURES = 14"
  by (simp add: FEATURES_def)

text \<open>
  Claim C10. When the form has no \<^verbatim>\<open>Operation_Mode\<close> field, the loop takes the first
  choice, \<^verbatim>\<open>Idle\<close>, without any error: the vector it goes on to build starts with Idle's
  code 0.0 and, when the other thirteen fields convert, has fourteen entries; that
  vector is what the scaler and the classifier receive, and the label of the class they
  return is the prediction shown. The request is handled exactly as one that submits
  \<^verbatim>\<open>Idle\<close> explicitly.
\<close>

theorem absent_operation_mode_defaults_to_idle:
  assumes "frm ''Operation_Mode'' = None"
  shows "feature_value env frm ''Operation_Mode'' hs =
           (Inr (Finite 0), set_form_value ''Operation_Mode'' (PStr ''Idle'') hs) \<and>
         build_values env frm FEATURES [] hs =
           build_values env frm (tl FEATURES) [Finite 0]
             (set_form_value ''Operation_Mode'' (PStr ''Idle'') hs) \<and>
         (\<forall>vals hs'. build_values env frm FEATURES [] hs = (Inr vals, hs') \<longrightarrow>
            length vals = 14 \<and> vals ! 0 = Finite 0) \<and>
         index env mf d \<lparr>req_method = POST, form_data = frm\<rparr> =
         index env mf d \<lparr>req_method = POST, form_data = frm(''Operation_Mode'' \<mapsto> ''Idle'')\<rparr> \<and>
         (\<forall>vals scaled k.
            fst (build_values env frm FEATURES [] (load_feature_means mf d)) = Inr vals \<longrightarrow>
            scaler_transform env vals = Inr scaled \<longrightarrow>
            model_predict env scaled = Inr k \<longrightarrow>
            prediction (fst (index env mf d \<lparr>req_method = POST, form_data = frm\<rparr>)) =
              Some (case map_of LABELS k of
                      None \<Rightarrow> ''Unknown ('' @ str_int k @ '')''
                    | Some l \<Rightarrow> l))"
proof -
  let ?frm' = "frm(''Operation_Mode'' \<mapsto> ''Idle'')"
  let ?hs1 = "\<lambda>hs. set_form_value ''Operation_Mode'' (PStr ''Idle'') hs"
  have step: "\<And>hs. feature_value env frm ''Operation_Mode'' hs = (Inr (Finite 0), ?hs1 hs)"
    using assms
    by (simp add: feature_value_def OPERATION_MODE_CHOICES_def OPERATION_MODE_MAP_def float_of_int_def)
  have step': "\<And>hs. feature_value env ?frm' ''Operation_Mode'' hs = (Inr (Finite 0), ?hs1 hs)"
    by (simp add: feature_value_def OPERATION_MODE_MAP_def float_of_int_def)
  have "''Operation_Mode'' \<notin> set (tl FEATURES)" by (simp add: FEATURES_def)
  then have rest: "\<And>v h. build_values env frm (tl FEATURES) v h = build_values env ?frm' (tl FEATURES) v h"
    by (intro build_values_cong) auto
  have first: "\<And>hs. build_values env frm FEATURES [] hs =
                 build_values env frm (tl FEATURES) [Finite 0] (?hs1 hs)"
    by (subst FEATURES_split) (simp add: step)
  have same: "build_values env frm FEATURES [] (load_feature_means mf d) =
        build_values env ?frm' FEATURES [] (load_feature_means mf d)"
    by (subst (1 2) FEATURES_split) (simp add: step step' rest)
  have vec: "length vals = 14 \<and> vals ! 0 = Finite 0"
    if "build_values env frm FEATURES [] hs = (Inr vals, hs')" for vals hs'
  proof -
    from that have "build_values env frm (tl FEATURES) [Finite 0] (?hs1 hs) = (Inr vals, hs')"
      by (simp add: first)
    from build_values_prefix [OF this] obtain rest where
      "vals = [Finite 0] @ rest" "length rest = length (tl FEATURES)" by blast
    then show ?thesis by (simp add: length_FEATURES)
  qed
  have pred: "prediction (fst (index env mf d \<lparr>req_method = POST, form_data = frm\<rparr>)) =
              Some (case map_of LABELS k of
                      None \<Rightarrow> ''Unknown ('' @ str_int k @ '')''
                    | Some l \<Rightarrow> l)"
    if "fst (build_values env frm FEATURES [] (load_feature_means mf d)) = Inr vals"
      "scaler_transform env vals = Inr scaled" "model_predict env scaled = Inr k"
    for vals scaled k
  proof (cases "build_values env frm FEATURES [] (load_feature_means mf d)")
    case (Pair r h)
    with that show ?thesis by (simp add: index_post try_predict_def)
  qed
  have idx: "index env mf d \<lparr>req_method = POST, form_data = frm\<rparr> =
         index env mf d \<lparr>req_method = POST, form_data = ?frm'\<rparr>"
    using same by (simp add: index_def try_predict_def)
  from step first vec idx pred show ?thesis by blast
qed

theorem absent_operation_mode_defaults_to_idle_witness:
  "empty_form ''Operation_Mode'' = None \<and>
   fst (build_values demo_env empty_form FEATURES [] (load_feature_means NoFile (DEFAULTS_FALLBACK demo_now))) =
     Inr [Finite 0, Finite 65, Finite 50, Finite 35, Finite 15, Finite (5 / 10), Finite 1,
          Finite 120, Finite 55, Finite (8 / 10), Finite 2024, Finite 1, Finite 15, Finite 10] \<and>
   index demo_env NoFile (DEFAULTS_FALLBACK demo_now) \<lparr>req_method = POST, form_data = empty_form\<rparr> =
   index demo_env NoFile (DEFAULTS_FALLBACK demo_now)
     \<lparr>req_method = POST, form_data = empty_form(''Operation_Mode'' \<mapsto> ''Idle'')\<rparr> \<and>
   prediction (fst (index demo_env NoFile (DEFAULTS_FALLBACK demo_now) \<lparr>req_method = POST, form_data = empty_form\<rparr>)) =
     Some ''High''"
proof -
  let ?vals = "[Finite 0, Finite 65, Finite 50, Finite 35, Finite 15, Finite (5 / 10), Finite 1,
          Finite 120, Finite 55, Finite (8 / 10), Finite 2024, Finite 1, Finite 15, Finite 10]"
  have h: "empty_form ''Operation_Mode'' = None" by (simp add: empty_form_def)
  note t0 = absent_operation_mode_defaults_to_idle
    [of empty_form demo_env "load_feature_means NoFile (DEFAULTS_FALLBACK demo_now)" NoFile
        "DEFAULTS_FALLBACK demo_now"]
  note t = t0 [OF h]
  have sc: "scaler_transform demo_env ?vals = Inr ?vals" by (simp add: demo_env_def)
  have mp: "model_predict demo_env ?vals = Inr 0" by (simp add: demo_env_def)
  from t build_empty_demo sc mp
  have "prediction (fst (index demo_env NoFile (DEFAULTS_FALLBACK demo_now) \<lparr>req_method = POST, form_data = empty_form\<rparr>)) =
        Some (case map_of LABELS 0 of None \<Rightarrow> ''Unknown ('' @ str_int 0 @ '')'' | Some l \<Rightarrow> l)"
    by blast
  then have p: "prediction (fst (index demo_env NoFile (DEFAULTS_FALLBACK demo_now) \<lparr>req_method = POST, form_data = empty_form\<rparr>)) =
        Some ''High''"
    by (simp add: LABELS_def)
  from t have i: "index demo_env NoFile (DEFAULTS_FALLBACK demo_now) \<lparr>req_method = POST, form_data = empty_form\<rparr> =
   index demo_env NoFile (DEFAULTS_FALLBACK demo_now)
     \<lparr>req_method = POST, form_data = empty_form(''Operation_Mode'' \<mapsto> ''Idle'')\<rparr>"
    by blast
  from h build_empty_demo i p show ?thesis by blast
qed

section \<open>Label encoding\<close>

lemma index_of_less: "x \<in> set xs \<Longrightarrow> index_of xs x < length xs"
  unfolding index_of_def by (induction xs) auto

lemma nth_index_of: "x \<in> set xs \<Longrightarrow> xs ! index_of xs x = x"
  unfolding index_of_def by (induction xs) auto

lemma index_of_nth: "distinct xs \<Longrightarrow> i < length xs \<Longrightarrow> index_of xs (xs ! i) = i"
  unfolding index_of_def
proof (induction xs arbitrary: i)
  case Nil
  then show ?case by simp
next
  case (Cons a xs)
  then show ?case by (cases i) auto
qed

lemma classes_of_props:
  "sorted (classes_of ys)" "distinct (classes_of ys)" "set (classes_of ys) = set ys"
  by (simp_all add: classes_of_def)

lemma length_classes_of: "length (classes_of ys) = card (set ys)"
  using distinct_card [OF classes_of_props(2), of ys] by (simp add: classes_of_props(3))

lemma strings_of_map_Str: "strings_of (map Str ys) = Some ys"
  by (induction ys) simp_all

lemma label_code_image: "label_code ys ` set ys = {..<card (set ys)}"
proof (intro equalityI subsetI)
  fix k assume "k \<in> label_code ys ` set ys"
  then obtain y where "y \<in> set ys" "k = label_code ys y" by auto
  then show "k \<in> {..<card (set ys)}"
    using index_of_less [of y "classes_of ys"]
    by (simp add: label_code_def classes_of_props(3) length_classes_of)
next
  fix k assume "k \<in> {..<card (set ys)}"
  then have k: "k < length (classes_of ys)" by (simp add: length_classes_of)
  then have "classes_of ys ! k \<in> set ys"
    using nth_mem [OF k] by (simp add: classes_of_props(3))
  moreover have "label_code ys (classes_of ys ! k) = k"
    unfolding label_code_def by (rule index_of_nth [OF classes_of_props(2) k])
  ultimately show "k \<in> label_code ys ` set ys" by force
qed

lemma label_code_mono:
  assumes "a \<in> set ys" "b \<in> set ys"
  shows "(label_code ys a < label_code ys b) = (a < b)"
proof -
  let ?cs = "classes_of ys"
  have ss: "sorted_wrt (<) ?cs"
    using classes_of_props(1,2) [of ys] by (simp add: strict_sorted_iff)
  have ia: "index_of ?cs a < length ?cs" and ib: "index_of ?cs b < length ?cs"
    using assms by (simp_all add: index_of_less classes_of_props(3))
  have na: "?cs ! index_of ?cs a = a" and nb: "?cs ! index_of ?cs b = b"
    using assms by (simp_all add: nth_index_of classes_of_props(3))
  have fwd: "i < j \<Longrightarrow> j < length ?cs \<Longrightarrow> ?cs ! i < ?cs ! j" for i j
    using ss by (simp add: sorted_wrt_nth_less)
  show ?thesis
  proof
    assume "label_code ys a < label_code ys b"
    then show "a < b" using fwd [of "index_of ?cs a" "index_of ?cs b"] ib na nb
      by (simp add: label_code_def)
  next
    assume lt: "a < b"
    show "label_code ys a < label_code ys b"
    proof (rule ccontr)
      assume "\<not> label_code ys a < label_code ys b"
      then have "index_of ?cs b \<le> index_of ?cs a" by (simp add: label_code_def)
      then consider "index_of ?cs b = index_of ?cs a" | "index_of ?cs b < index_of ?cs a"
        by linarith
      then show False
      proof cases
        case 1
        then have "a = b" using na nb by simp
        with lt show False by simp
      next
        case 2
        then have "b < a" using fwd [of "index_of ?cs b" "index_of ?cs a"] ia na nb by simp
        with lt show False by simp
      qed
    qed
  qed
qed

text \<open>
  Claim C1 as stated fails. On the training column Idle, Active, Maintenance, Idle the
  encoder gives Idle the code 1 and Active the code 0, where first-seen numbering gives
  0 and 1; the serving map has Idle at 0, which is not the code training assigned.
\<close>

theorem first_seen_counterexample:
  "map (label_code demo_modes) demo_modes = [1, 0, 2, 1] \<and>
   map (first_seen_code demo_modes) demo_modes = [0, 1, 2, 0] \<and>
   map_of (label_mapping demo_modes) ''Idle'' = Some 1 \<and>
   map_of OPERATION_MODE_MAP ''Idle'' = Some 0"
  by (simp add: demo_modes_def label_code_def classes_of_def index_of_def first_seen_code_def
                first_seen_classes_def label_mapping_def OPERATION_MODE_MAP_def)

section \<open>Data preparation\<close>

lemmas pev = demo_processing_env_def demo_raw_def demo_timestamp_def preprocess_def preprocess_steps_def
  parse_timestamp_def astype_category_def calendar_column_def drop_columns_def label_encode_def
  fit_transform_labels_def get_column_def set_column_def label_code_def classes_of_def index_of_def
  DataProcessing_def

lemma demo_pre: "fst (preprocess demo_processing_env demo_loaded) = Inr ()"
  by (simp add: pev demo_loaded_def)

lemma get_column_Inr: "(get_column d name = Inr c) = (map_of d name = Some c)"
  by (simp add: get_column_def split: option.splits)

lemma get_column_set_other:
  "k \<noteq> name \<Longrightarrow> get_column (set_column k c d) name = get_column d name"
  by (simp add: get_column_def set_column_def update_conv')

lemma get_column_set_same: "get_column (set_column k c d) k = Inr c"
  by (simp add: get_column_def set_column_def update_conv')

lemma missing_at_set_other:
  "k \<noteq> name \<Longrightarrow> missing_at i name (set_column k c d) = missing_at i name d"
  by (simp add: missing_at_def get_column_set_other)

lemma dt_field_missing:
  "dt_field part col = Inr vs \<Longrightarrow> i < length col \<Longrightarrow> col ! i = Missing \<Longrightarrow>
   i < length vs \<and> vs ! i = Missing"
proof (induction col arbitrary: vs i)
  case Nil
  then show ?case by simp
next
  case (Cons c cs)
  from Cons.prems(1) obtain v vs' where v: "vs = v # vs'" "dt_field part cs = Inr vs'"
    and c: "(case c of Date dt \<Rightarrow> Some (IntCell (part dt)) | Missing \<Rightarrow> Some Missing | _ \<Rightarrow> None) = Some v"
    by (auto split: option.splits sum.splits)
  show ?case
  proof (cases i)
    case 0
    with Cons.prems(3) c v show ?thesis by simp
  next
    case (Suc j)
    with Cons.prems Cons.IH [OF v(2), of j] v show ?thesis by simp
  qed
qed

lemma parse_timestamp_missing:
  assumes "parse_timestamp env d = Inr d'" "get_column d ''Timestamp'' = Inr col"
    and "i < length (to_datetime env col)" "to_datetime env col ! i = None"
  shows "missing_at i ''Timestamp'' d'"
  using assms by (auto simp: parse_timestamp_def missing_at_def get_column_set_same)

lemma astype_category_keeps:
  assumes "astype_category k d = Inr d'"
  shows "missing_at i name d' = missing_at i name d"
proof -
  from assms obtain c where c: "get_column d k = Inr c" "d' = set_column k c d"
    by (auto simp: astype_category_def split: sum.splits)
  show ?thesis
  proof (cases "k = name")
    case True
    with c show ?thesis by (simp add: missing_at_def get_column_set_same)
  next
    case False
    with c show ?thesis by (simp add: missing_at_set_other)
  qed
qed

lemma calendar_column_sets:
  assumes "calendar_column k part d = Inr d'" "missing_at i ''Timestamp'' d"
  shows "missing_at i k d'"
proof -
  from assms(1) obtain col vs where c: "get_column d ''Timestamp'' = Inr col"
    "dt_field part col = Inr vs" "d' = set_column k vs d"
    by (auto simp: calendar_column_def split: sum.splits)
  from assms(2) c(1) have "i < length col" "col ! i = Missing" by (auto simp: missing_at_def)
  with dt_field_missing [OF c(2)] c(3) show ?thesis
    by (simp add: missing_at_def get_column_set_same)
qed

lemma calendar_column_keeps:
  assumes "calendar_column k part d = Inr d'" "k \<noteq> name"
  shows "missing_at i name d' = missing_at i name d"
  using assms by (auto simp: calendar_column_def missing_at_set_other split: sum.splits)

lemma label_encode_keeps:
  assumes "label_encode env k d = Inr d'" "k \<noteq> name"
  shows "missing_at i name d' = missing_at i name d"
  using assms by (auto simp: label_encode_def missing_at_set_other split: sum.splits)

lemma map_of_filter_keys:
  "name \<notin> set names \<Longrightarrow> map_of (filter (\<lambda>(k, col). k \<notin> set names) d) name = map_of d name"
  by (induction d) auto

lemma drop_columns_keeps:
  assumes "drop_columns names d = Inr d'" "name \<notin> set names"
  shows "missing_at i name d' = missing_at i name d"
proof -
  from assms(1) have "d' = filter (\<lambda>(k, col). k \<notin> set names) d"
    by (simp add: drop_columns_def split: list.splits)
  with assms(2) show ?thesis
    by (simp add: missing_at_def get_column_def map_of_filter_keys)
qed

lemma run_ten_steps:
  "run_steps [s1, s2, s3, s4, s5, s6, s7, s8, s9, s10] d = (Inr u, d') \<Longrightarrow>
   \<exists>d1 d2 d3 d4 d5 d6 d7 d8 d9.
     s1 d = Inr d1 \<and> s2 d1 = Inr d2 \<and> s3 d2 = Inr d3 \<and> s4 d3 = Inr d4 \<and> s5 d4 = Inr d5 \<and>
     s6 d5 = Inr d6 \<and> s7 d6 = Inr d7 \<and> s8 d7 = Inr d8 \<and> s9 d8 = Inr d9 \<and> s10 d9 = Inr d'"
  by (auto split: sum.splits)

lemma preprocess_steps_missing:
  assumes run: "run_steps (preprocess_steps env) d = (Inr u, d')"
    and ts: "get_column d ''Timestamp'' = Inr col"
    and i: "i < length (to_datetime env col)" "to_datetime env col ! i = None"
  shows "missing_at i ''Year'' d' \<and> missing_at i ''Month'' d' \<and>
         missing_at i ''Day'' d' \<and> missing_at i ''Hour'' d'"
proof -
  from run_ten_steps [OF run [unfolded preprocess_steps_def]]
  obtain d1 d2 d3 d4 d5 d6 d7 d8 d9 where
        s1: "parse_timestamp env d = Inr d1"
    and s2: "astype_category ''Operation_Mode'' d1 = Inr d2"
    and s3: "astype_category ''Efficiency_Status'' d2 = Inr d3"
    and s4: "calendar_column ''Year'' year d3 = Inr d4"
    and s5: "calendar_column ''Month'' month d4 = Inr d5"
    and s6: "calendar_column ''Day'' day d5 = Inr d6"
    and s7: "calendar_column ''Hour'' hour d6 = Inr d7"
    and s8: "drop_columns [''Timestamp'', ''Machine_ID''] d7 = Inr d8"
    and s9: "label_encode env ''Efficiency_Status'' d8 = Inr d9"
    and s10: "label_encode env ''Operation_Mode'' d9 = Inr d'"
    by blast
  have t1: "missing_at i ''Timestamp'' d1" by (rule parse_timestamp_missing [OF s1 ts i])
  have t3: "missing_at i ''Timestamp'' d3"
    using t1 by (simp add: astype_category_keeps [OF s2] astype_category_keeps [OF s3])
  have y4: "missing_at i ''Year'' d4" by (rule calendar_column_sets [OF s4 t3])
  have t4: "missing_at i ''Timestamp'' d4" using t3 by (simp add: calendar_column_keeps [OF s4])
  have m5: "missing_at i ''Month'' d5" by (rule calendar_column_sets [OF s5 t4])
  have t5: "missing_at i ''Timestamp'' d5" using t4 by (simp add: calendar_column_keeps [OF s5])
  have y5: "missing_at i ''Year'' d5" using y4 by (simp add: calendar_column_keeps [OF s5])
  have d6: "missing_at i ''Day'' d6" by (rule calendar_column_sets [OF s6 t5])
  have t6: "missing_at i ''Timestamp'' d6" using t5 by (simp add: calendar_column_keeps [OF s6])
  have y6: "missing_at i ''Year'' d6" "missing_at i ''Month'' d6"
    using y5 m5 by (simp_all add: calendar_column_keeps [OF s6])
  have h7: "missing_at i ''Hour'' d7" by (rule calendar_column_sets [OF s7 t6])
  have y7: "missing_at i ''Year'' d7" "missing_at i ''Month'' d7" "missing_at i ''Day'' d7"
    using y6 d6 by (simp_all add: calendar_column_keeps [OF s7])
  have y8: "missing_at i ''Year'' d8" "missing_at i ''Month'' d8" "missing_at i ''Day'' d8"
    "missing_at i ''Hour'' d8"
    using y7 h7 by (simp_all add: drop_columns_keeps [OF s8])
  then show ?thesis
    by (simp add: label_encode_keeps [OF s9] label_encode_keeps [OF s10])
qed

text \<open>
  Claim C8. For every record whose timestamp \<^verbatim>\<open>pd.to_datetime\<close> could not parse, a
  successful preprocess leaves the missing-value marker in all four columns Year,
  Month, Day and Hour at that record, not a number.
\<close>

theorem unparsed_timestamp_gives_missing_calendar_fields:
  assumes "df self = Some d"
    and "get_column d ''Timestamp'' = Inr col"
    and "i < length (to_datetime env col)" and "to_datetime env col ! i = None"
    and "fst (preprocess env self) = Inr ()"
  shows "\<exists>d'. df (snd (preprocess env self)) = Some d' \<and>
           (\<forall>name \<in> {''Year'', ''Month'', ''Day'', ''Hour''}.
              \<exists>c. get_column d' name = Inr c \<and> i < length c \<and> c ! i = Missing)"
proof -
  obtain r d' where r: "run_steps (preprocess_steps env) d = (r, d')"
    by (cases "run_steps (preprocess_steps env) d")
  with assms(1,5) obtain u where u: "r = Inr u" by (cases r) (simp_all add: preprocess_def)
  have "df (snd (preprocess env self)) = Some d'"
    using assms(1) r u by (simp add: preprocess_def)
  moreover have "missing_at i ''Year'' d' \<and> missing_at i ''Month'' d' \<and>
         missing_at i ''Day'' d' \<and> missing_at i ''Hour'' d'"
    using preprocess_steps_missing [OF r [unfolded u] assms(2,3,4)] .
  ultimately show ?thesis by (simp add: missing_at_def)
qed

theorem unparsed_timestamp_gives_missing_calendar_fields_witness:
  "df demo_loaded = Some demo_raw \<and>
   get_column demo_raw ''Timestamp'' = Inr [Str ''2024-01-15 10:00:00'', Str ''yesterday''] \<and>
   to_datetime demo_processing_env [Str ''2024-01-15 10:00:00'', Str ''yesterday''] ! 1 = None \<and>
   fst (preprocess demo_processing_env demo_loaded) = Inr () \<and>
   (\<exists>d'. df (snd (preprocess demo_processing_env demo_loaded)) = Some d' \<and>
      (\<exists>c. get_column d' ''Year'' = Inr c \<and> 1 < length c \<and> c ! 1 = Missing) \<and>
      (\<exists>c. get_column d' ''Month'' = Inr c \<and> 1 < length c \<and> c ! 1 = Missing) \<and>
      (\<exists>c. get_column d' ''Day'' = Inr c \<and> 1 < length c \<and> c ! 1 = Missing) \<and>
      (\<exists>c. get_column d' ''Hour'' = Inr c \<and> 1 < length c \<and> c ! 1 = Missing))"
proof -
  have h1: "df demo_loaded = Some demo_raw" by (simp add: demo_loaded_def DataProcessing_def)
  have h2: "get_column demo_raw ''Timestamp'' = Inr [Str ''2024-01-15 10:00:00'', Str ''yesterday'']"
    by (simp add: get_column_def demo_raw_def)
  have h3: "1 < length (to_datetime demo_processing_env [Str ''2024-01-15 10:00:00'', Str ''yesterday''])"
    by (simp add: demo_processing_env_def)
  have h4: "to_datetime demo_processing_env [Str ''2024-01-15 10:00:00'', Str ''yesterday''] ! 1 = None"
    by (simp add: demo_processing_env_def demo_timestamp_def)
  from unparsed_timestamp_gives_missing_calendar_fields [OF h1 h2 h3 h4 demo_pre]
  obtain d' where d': "df (snd (preprocess demo_processing_env demo_loaded)) = Some d'"
    and all: "\<forall>name \<in> {''Year'', ''Month'', ''Day'', ''Hour''}.
                \<exists>c. get_column d' name = Inr c \<and> 1 < length c \<and> c ! 1 = Missing"
    by blast
  from all have "\<exists>c. get_column d' ''Year'' = Inr c \<and> 1 < length c \<and> c ! 1 = Missing"
    "\<exists>c. get_column d' ''Month'' = Inr c \<and> 1 < length c \<and> c ! 1 = Missing"
    "\<exists>c. get_column d' ''Day'' = Inr c \<and> 1 < length c \<and> c ! 1 = Missing"
    "\<exists>c. get_column d' ''Hour'' = Inr c \<and> 1 < length c \<and> c ! 1 = Missing"
    by blast+
  with d' h1 h2 h4 demo_pre show ?thesis by blast
qed

lemma select_columns_whole:
  "select_columns d names = Inr X \<Longrightarrow>
   map fst X = names \<and> (\<forall>(name, col) \<in> set X. get_column d name = Inr col)"
proof (induction names arbitrary: X)
  case Nil
  then show ?case by simp
next
  case (Cons n ns)
  from Cons.prems obtain col rest where c: "get_column d n = Inr col"
    "select_columns d ns = Inr rest" "X = (n, col) # rest"
    by (auto split: sum.splits)
  with Cons.IH [OF c(2)] show ?case by simp
qed

text \<open>
  Claim C4. The split-and-scale step hands the scaler the complete columns of the
  fourteen features (every record), and hands \<^verbatim>\<open>train_test_split\<close> the scaled array with
  test size 0.2, random state 42 and stratification by the target column; what it saves
  is the four parts of that split and the scaler fitted on all records.
\<close>

theorem scaler_fitted_on_all_records_before_split:
  assumes "df self = Some d"
    and "select_columns d training_features = Inr X"
    and "get_column d ''Efficiency_Status'' = Inr y"
    and "scaler_fit_transform env X = Inr (scaler, X_scaled)"
    and "train_test_split env X_scaled y
           \<lparr>test_size = Finite (2 / 10), random_state = 42, stratify = Some y\<rparr> =
         Inr (Xtr, Xte, ytr, yte)"
  shows "split_and_scale_and_save env self store =
           (Inr (), self\<lparr>features_used := Some training_features\<rparr>,
            store(os_path_join (output_path self) ''X_train.pkl'' \<mapsto> Array Xtr,
                  os_path_join (output_path self) ''X_test.pkl'' \<mapsto> Array Xte,
                  os_path_join (output_path self) ''y_train.pkl'' \<mapsto> Series ytr,
                  os_path_join (output_path self) ''y_test.pkl'' \<mapsto> Series yte,
                  os_path_join (output_path self) ''scaler.pkl'' \<mapsto> FittedScaler scaler)) \<and>
         map fst X = training_features \<and>
         (\<forall>(name, col) \<in> set X. get_column d name = Inr col)"
  using assms select_columns_whole [OF assms(2)]
  by (simp add: split_and_scale_and_save_def Let_def)

lemmas sev = demo_processing_env_def demo_prepared_def demo_ready_def DataProcessing_def
  training_features_def get_column_def

lemma demo_select:
  "select_columns demo_prepared training_features =
     Inr (filter (\<lambda>(k, col). k \<noteq> ''Efficiency_Status'') demo_prepared)"
  by (simp add: sev)

theorem scaler_fitted_on_all_records_before_split_witness:
  "df demo_ready = Some demo_prepared \<and>
   get_column demo_prepared ''Efficiency_Status'' = Inr [IntCell 1, IntCell 0] \<and>
   fst (split_and_scale_and_save demo_processing_env demo_ready empty_store) = Inr () \<and>
   snd (snd (split_and_scale_and_save demo_processing_env demo_ready empty_store)) ''artifacts/processed/scaler.pkl'' =
     Some (FittedScaler training_features)"
proof -
  let ?X = "filter (\<lambda>(k, col). k \<noteq> ''Efficiency_Status'') demo_prepared"
  have h1: "df demo_ready = Some demo_prepared" by (simp add: demo_ready_def DataProcessing_def)
  have h3: "get_column demo_prepared ''Efficiency_Status'' = Inr [IntCell 1, IntCell 0]"
    by (simp add: get_column_def demo_prepared_def)
  have h4: "scaler_fit_transform demo_processing_env ?X = Inr (map fst ?X, map snd ?X)"
    by (simp add: demo_processing_env_def)
  have h5: "train_test_split demo_processing_env (map snd ?X) [IntCell 1, IntCell 0]
           \<lparr>test_size = Finite (2 / 10), random_state = 42, stratify = Some [IntCell 1, IntCell 0]\<rparr> =
         Inr (map tl (map snd ?X), map (take 1) (map snd ?X), tl [IntCell 1, IntCell 0], take 1 [IntCell 1, IntCell 0])"
    by (simp add: demo_processing_env_def)
  have p: "os_path_join (output_path demo_ready) ''scaler.pkl'' = ''artifacts/processed/scaler.pkl''"
    by (simp add: os_path_join_def demo_ready_def DataProcessing_def)
  have n: "map fst ?X = training_features" by (simp add: demo_prepared_def training_features_def)
  from scaler_fitted_on_all_records_before_split [OF h1 demo_select h3 h4 h5, of empty_store]
  have "split_and_scale_and_save demo_processing_env demo_ready empty_store =
           (Inr (), demo_ready\<lparr>features_used := Some training_features\<rparr>,
            empty_store(os_path_join (output_path demo_ready) ''X_train.pkl'' \<mapsto> Array (map tl (map snd ?X)),
                  os_path_join (output_path demo_ready) ''X_test.pkl'' \<mapsto> Array (map (take 1) (map snd ?X)),
                  os_path_join (output_path demo_ready) ''y_train.pkl'' \<mapsto> Series (tl [IntCell 1, IntCell 0]),
                  os_path_join (output_path demo_ready) ''y_test.pkl'' \<mapsto> Series (take 1 [IntCell 1, IntCell 0]),
                  os_path_join (output_path demo_ready) ''scaler.pkl'' \<mapsto> FittedScaler (map fst ?X)))"
    by blast
  then show ?thesis using h1 h3 by (simp add: p n)
qed

lemma parse_timestamp_column:
  assumes "parse_timestamp env d = Inr d'" "name \<noteq> ''Timestamp''"
  shows "get_column d' name = get_column d name"
  using assms by (auto simp: parse_timestamp_def get_column_set_other split: sum.splits)

lemma astype_category_column:
  assumes "astype_category k d = Inr d'"
  shows "get_column d' name = get_column d name"
proof -
  from assms obtain c where c: "get_column d k = Inr c" "d' = set_column k c d"
    by (auto simp: astype_category_def split: sum.splits)
  show ?thesis
  proof (cases "k = name")
    case True
    with c show ?thesis by (simp add: get_column_set_same)
  next
    case False
    with c show ?thesis by (simp add: get_column_set_other)
  qed
qed

lemma calendar_column_column:
  assumes "calendar_column k part d = Inr d'" "k \<noteq> name"
  shows "get_column d' name = get_column d name"
  using assms by (auto simp: calendar_column_def get_column_set_other split: sum.splits)

lemma drop_columns_column:
  assumes "drop_columns names d = Inr d'" "name \<notin> set names"
  shows "get_column d' name = get_column d name"
proof -
  from assms(1) have "d' = filter (\<lambda>(k, col). k \<notin> set names) d"
    by (simp add: drop_columns_def split: list.splits)
  with assms(2) show ?thesis by (simp add: get_column_def map_of_filter_keys)
qed

lemma label_encode_other_column:
  assumes "label_encode env k d = Inr d'" "k \<noteq> name"
  shows "get_column d' name = get_column d name"
  using assms by (auto simp: label_encode_def get_column_set_other split: sum.splits)

lemma label_encode_column:
  assumes "label_encode env k d = Inr d'" "get_column d k = Inr (map Str ys)"
  shows "get_column d' k = Inr (map (\<lambda>y. IntCell (int (label_code ys y))) ys)"
  using assms
  by (auto simp: label_encode_def fit_transform_labels_def strings_of_map_Str get_column_set_same
           split: sum.splits)

lemma preprocess_steps_encode:
  assumes run: "run_steps (preprocess_steps env) d = (Inr u, d')"
    and om: "get_column d ''Operation_Mode'' = Inr (map Str modes)"
    and es: "get_column d ''Efficiency_Status'' = Inr (map Str labels)"
  shows "get_column d' ''Operation_Mode'' = Inr (map (\<lambda>y. IntCell (int (label_code modes y))) modes) \<and>
         get_column d' ''Efficiency_Status'' = Inr (map (\<lambda>y. IntCell (int (label_code labels y))) labels)"
proof -
  from run_ten_steps [OF run [unfolded preprocess_steps_def]]
  obtain d1 d2 d3 d4 d5 d6 d7 d8 d9 where
        s1: "parse_timestamp env d = Inr d1"
    and s2: "astype_category ''Operation_Mode'' d1 = Inr d2"
    and s3: "astype_category ''Efficiency_Status'' d2 = Inr d3"
    and s4: "calendar_column ''Year'' year d3 = Inr d4"
    and s5: "calendar_column ''Month'' month d4 = Inr d5"
    and s6: "calendar_column ''Day'' day d5 = Inr d6"
    and s7: "calendar_column ''Hour'' hour d6 = Inr d7"
    and s8: "drop_columns [''Timestamp'', ''Machine_ID''] d7 = Inr d8"
    and s9: "label_encode env ''Efficiency_Status'' d8 = Inr d9"
    and s10: "label_encode env ''Operation_Mode'' d9 = Inr d'"
    by blast
  have keep: "get_column d8 name = get_column d name"
    if "name = ''Operation_Mode'' \<or> name = ''Efficiency_Status''" for name
  proof -
    from that have n: "name \<noteq> ''Timestamp''" "''Year'' \<noteq> name" "''Month'' \<noteq> name"
      "''Day'' \<noteq> name" "''Hour'' \<noteq> name" "name \<notin> set [''Timestamp'', ''Machine_ID'']"
      by auto
    have "get_column d8 name = get_column d7 name" by (rule drop_columns_column [OF s8 n(6)])
    also have "\<dots> = get_column d6 name" by (rule calendar_column_column [OF s7 n(5)])
    also have "\<dots> = get_column d5 name" by (rule calendar_column_column [OF s6 n(4)])
    also have "\<dots> = get_column d4 name" by (rule calendar_column_column [OF s5 n(3)])
    also have "\<dots> = get_column d3 name" by (rule calendar_column_column [OF s4 n(2)])
    also have "\<dots> = get_column d2 name" by (rule astype_category_column [OF s3])
    also have "\<dots> = get_column d1 name" by (rule astype_category_column [OF s2])
    also have "\<dots> = get_column d name" by (rule parse_timestamp_column [OF s1 n(1)])
    finally show ?thesis .
  qed
  have es8: "get_column d8 ''Efficiency_Status'' = Inr (map Str labels)"
    using keep [of "''Efficiency_Status''"] es by simp
  have om8: "get_column d8 ''Operation_Mode'' = Inr (map Str modes)"
    using keep [of "''Operation_Mode''"] om by simp
  have es9: "get_column d9 ''Efficiency_Status'' = Inr (map (\<lambda>y. IntCell (int (label_code labels y))) labels)"
    by (rule label_encode_column [OF s9 es8])
  have om9: "get_column d9 ''Operation_Mode'' = Inr (map Str modes)"
    using label_encode_other_column [OF s9, of "''Operation_Mode''"] om8 by simp
  have om10: "get_column d' ''Operation_Mode'' = Inr (map (\<lambda>y. IntCell (int (label_code modes y))) modes)"
    by (rule label_encode_column [OF s10 om9])
  have es10: "get_column d' ''Efficiency_Status'' = Inr (map (\<lambda>y. IntCell (int (label_code labels y))) labels)"
    using label_encode_other_column [OF s10, of "''Efficiency_Status''"] es9 by simp
  from om10 es10 show ?thesis by simp
qed

text \<open>
  Claim C1, amended. Whenever preprocess succeeds on a dataframe whose
  \<^verbatim>\<open>Operation_Mode\<close> and \<^verbatim>\<open>Efficiency_Status\<close> columns hold strings, it replaces each of
  the two columns by the codes of its labels, and a label's code is its position among
  the distinct labels of that column in ascending (alphabetical, code-point) order: the
  codes are exactly the integers from 0 up to the number of distinct labels minus one,
  and a label has a smaller code than another exactly when it is the smaller string.
\<close>

theorem label_codes_sorted_dense:
  assumes "df self = Some d"
    and "get_column d ''Operation_Mode'' = Inr (map Str modes)"
    and "get_column d ''Efficiency_Status'' = Inr (map Str labels)"
    and "fst (preprocess env self) = Inr ()"
  shows "(\<exists>d'. df (snd (preprocess env self)) = Some d' \<and>
            get_column d' ''Operation_Mode'' =
              Inr (map (\<lambda>y. IntCell (int (label_code modes y))) modes) \<and>
            get_column d' ''Efficiency_Status'' =
              Inr (map (\<lambda>y. IntCell (int (label_code labels y))) labels)) \<and>
         label_code modes ` set modes = {..<card (set modes)} \<and>
         label_code labels ` set labels = {..<card (set labels)} \<and>
         (\<forall>a \<in> set modes. \<forall>b \<in> set modes. (label_code modes a < label_code modes b) = (a < b)) \<and>
         (\<forall>a \<in> set labels. \<forall>b \<in> set labels. (label_code labels a < label_code labels b) = (a < b))"
proof -
  obtain r d' where r: "run_steps (preprocess_steps env) d = (r, d')"
    by (cases "run_steps (preprocess_steps env) d")
  with assms(1,4) obtain u where u: "r = Inr u" by (cases r) (simp_all add: preprocess_def)
  have "df (snd (preprocess env self)) = Some d'"
    using assms(1) r u by (simp add: preprocess_def)
  moreover note preprocess_steps_encode [OF r [unfolded u] assms(2,3)]
  ultimately have "\<exists>d'. df (snd (preprocess env self)) = Some d' \<and>
            get_column d' ''Operation_Mode'' =
              Inr (map (\<lambda>y. IntCell (int (label_code modes y))) modes) \<and>
            get_column d' ''Efficiency_Status'' =
              Inr (map (\<lambda>y. IntCell (int (label_code labels y))) labels)"
    by blast
  then show ?thesis
    by (simp add: label_code_image label_code_mono)
qed

theorem label_codes_sorted_dense_witness:
  "df demo_loaded = Some demo_raw \<and>
   get_column demo_raw ''Operation_Mode'' = Inr (map Str [''Idle'', ''Active'']) \<and>
   get_column demo_raw ''Efficiency_Status'' = Inr (map Str [''Low'', ''High'']) \<and>
   fst (preprocess demo_processing_env demo_loaded) = Inr () \<and>
   (\<exists>d'. df (snd (preprocess demo_processing_env demo_loaded)) = Some d' \<and>
      get_column d' ''Operation_Mode'' = Inr [IntCell 1, IntCell 0] \<and>
      get_column d' ''Efficiency_Status'' = Inr [IntCell 1, IntCell 0]) \<and>
   label_code [''Idle'', ''Active''] ''Active'' < label_code [''Idle'', ''Active''] ''Idle''"
proof -
  have h1: "df demo_loaded = Some demo_raw" by (simp add: demo_loaded_def DataProcessing_def)
  have h2: "get_column demo_raw ''Operation_Mode'' = Inr (map Str [''Idle'', ''Active''])"
    by (simp add: get_column_def demo_raw_def)
  have h3: "get_column demo_raw ''Efficiency_Status'' = Inr (map Str [''Low'', ''High''])"
    by (simp add: get_column_def demo_raw_def)
  note t = label_codes_sorted_dense [OF h1 h2 h3 demo_pre]
  have c1: "map (\<lambda>y. IntCell (int (label_code [''Idle'', ''Active''] y))) [''Idle'', ''Active''] =
            [IntCell 1, IntCell 0]"
    by (simp add: label_code_def classes_of_def index_of_def)
  have c2: "map (\<lambda>y. IntCell (int (label_code [''Low'', ''High''] y))) [''Low'', ''High''] =
            [IntCell 1, IntCell 0]"
    by (simp add: label_code_def classes_of_def index_of_def)
  from t have e: "\<exists>d'. df (snd (preprocess demo_processing_env demo_loaded)) = Some d' \<and>
      get_column d' ''Operation_Mode'' = Inr [IntCell 1, IntCell 0] \<and>
      get_column d' ''Efficiency_Status'' = Inr [IntCell 1, IntCell 0]"
    unfolding c1 c2 by blast
  from t have "\<forall>a \<in> set [''Idle'', ''Active'']. \<forall>b \<in> set [''Idle'', ''Active''].
      (label_code [''Idle'', ''Active''] a < label_code [''Idle'', ''Active''] b) = (a < b)"
    by blast
  then have "(label_code [''Idle'', ''Active''] ''Active'' < label_code [''Idle'', ''Active''] ''Idle'') =
             (''Active'' < ''Idle'')"
    by simp
  then have lt: "label_code [''Idle'', ''Active''] ''Active'' < label_code [''Idle'', ''Active''] ''Idle''"
    by simp
  from h1 h2 h3 demo_pre e lt show ?thesis by blast
qed

section \<open>Stage order and model training\<close>

lemma load_data_training_keeps_model_path:
  "model_path (snd (load_data_training store self)) = model_path self"
  by (simp add: load_data_training_def Let_def split: sum.splits)

text \<open>
  Claim C9. Whenever the processed data load and the classifier's fit succeeds, the
  artefact store after the whole run holds the fitted model under \<^verbatim>\<open>model.pkl\<close>, whatever
  the prediction and the four metric functions return or raise; evaluation leaves the
  store as training left it.
\<close>

theorem model_persisted_regardless_of_scores:
  assumes "load_data_training store self = (Inr (), self1)"
    and "lr_fit env \<lparr>lr_random_state = 42, max_iter = 1000\<rparr> (X_train self1) (y_train self1) = Inr fitted"
  shows "snd (snd (run_training env self store)) =
           store(os_path_join (model_path self) ''model.pkl'' \<mapsto> fitted) \<and>
         snd (snd (run_training env self store)) = snd (snd (train_model env self1 store))"
proof -
  have "model_path self1 = model_path self"
    using load_data_training_keeps_model_path [of store self] assms(1) by simp
  then show ?thesis
    using assms by (simp add: run_training_def train_model_def Let_def)
qed

lemma demo_load:
  "load_data_training demo_processed_store demo_trainer =
     (Inr (), demo_trainer\<lparr>X_train := Some ''X_train'', X_test := Some ''X_test'',
                            y_train := Some ''y_train'', y_test := Some ''y_test''\<rparr>)"
  by (simp add: load_data_training_def demo_processed_store_def demo_trainer_def ModelTraining_def
                joblib_load_def os_path_join_def Let_def)

theorem model_persisted_regardless_of_scores_witness:
  "fst (load_data_training demo_processed_store demo_trainer) = Inr () \<and>
   fst (run_training demo_training_env demo_trainer demo_processed_store) =
     Inr \<lparr>accuracy = Finite 0, precision = Finite 0, recall = Finite 0, f1 = Finite 0\<rparr> \<and>
   snd (snd (run_training demo_training_env demo_trainer demo_processed_store)) =
     demo_processed_store(''artifacts/models/model.pkl'' \<mapsto> ''LogisticRegression fitted on X_train'')"
proof -
  let ?self1 = "demo_trainer\<lparr>X_train := Some ''X_train'', X_test := Some ''X_test'',
                            y_train := Some ''y_train'', y_test := Some ''y_test''\<rparr>"
  have fit: "lr_fit demo_training_env \<lparr>lr_random_state = 42, max_iter = 1000\<rparr> (X_train ?self1) (y_train ?self1) =
             Inr ''LogisticRegression fitted on X_train''"
    by (simp add: demo_training_env_def)
  have p: "os_path_join (model_path demo_trainer) ''model.pkl'' = ''artifacts/models/model.pkl''"
    by (simp add: os_path_join_def demo_trainer_def ModelTraining_def)
  have m: "fst (run_training demo_training_env demo_trainer demo_processed_store) =
     Inr \<lparr>accuracy = Finite 0, precision = Finite 0, recall = Finite 0, f1 = Finite 0\<rparr>"
    unfolding run_training_def demo_load
    by (simp add: train_model_def evaluate_model_def Let_def demo_training_env_def
                  demo_trainer_def ModelTraining_def)
  from model_persisted_regardless_of_scores [OF demo_load fit]
  have "snd (snd (run_training demo_training_env demo_trainer demo_processed_store)) =
        demo_processed_store(os_path_join (model_path demo_trainer) ''model.pkl'' \<mapsto> ''LogisticRegression fitted on X_train'')"
    by blast
  then show ?thesis using m by (simp add: p demo_load)
qed




end
